theory Spec2Isabelle
  imports Complex_Main "HOL-Library.Sublist" "HOL-Library.Signed_Division"
begin

section \<open>Byte and string search\<close>

text \<open>
  \<^verbatim>\<open>bytes.Index(data, sep)\<close> and \<^verbatim>\<open>strings.Index\<close> return the position of the
  first occurrence of \<open>sep\<close> in \<open>data\<close>, or \<open>-1\<close> when there is none; the model returns
  \<open>None\<close> for \<open>-1\<close>.  \<^verbatim>\<open>strings.Contains(s, sub)\<close> is \<^verbatim>\<open>Index(s, sub) >= 0\<close>.
\<close>

fun Index :: "'a list \<Rightarrow> 'a list \<Rightarrow> nat option" where
  "Index [] sep = (if sep = [] then Some 0 else None)"
| "Index (x # xs) sep =
     (if prefix sep (x # xs) then Some 0 else map_option Suc (Index xs sep))"

definition Contains :: "string \<Rightarrow> string \<Rightarrow> bool" where
  "Contains s sub = (Index s sub \<noteq> None)"

section \<open>Core topology resolver\<close>

text \<open>
  Go's \<open>int\<close> is modelled by \<open>int\<close>: the counts are logical CPU counts read from
  \<^verbatim>\<open>sysctl\<close>.  Integer division truncates towards zero (\<open>sdiv\<close>).  A loop
  \<^verbatim>\<open>for i := a; i < b; i++ { xs = append(xs, i) }\<close> appends \<open>[a..b - 1]\<close>.
  \<^verbatim>\<open>make([]int, 0, n)\<close> panics for a negative capacity; the limit that the
  allocator puts on large capacities is not modelled.
\<close>

record SystemInfo =
  Name :: string
  CoreCount :: int
  ECoreCount :: int
  PCoreCount :: int
  GPUCoreCount :: int
  IsUltra :: bool
  IsInterleaved :: bool

record CoreTopology =
  PCoreIndices :: "int list"
  ECoreIndices :: "int list"
  Description :: string

datatype panic = MakeSliceCapOutOfRange | IndexOutOfRange

definition append_range :: "int list \<Rightarrow> int \<Rightarrow> int \<Rightarrow> int list" where
  "append_range xs a b = xs @ [a..b - 1]"

definition make_cap :: "int \<Rightarrow> panic + int list" where
  "make_cap n = (if n < 0 then Inl MakeSliceCapOutOfRange else Inr [])"

definition GetCoreTopology :: "SystemInfo \<Rightarrow> panic + CoreTopology" where
  "GetCoreTopology sysInfo =
    (let totalCores = PCoreCount sysInfo + ECoreCount sysInfo;
         name = Name sysInfo
     in if Contains name ''M3 Ultra'' \<and> PCoreCount sysInfo = 24 \<and> ECoreCount sysInfo = 8 then
          (let e1 = append_range [] 0 4;
               p1 = append_range [] 4 16;
               e2 = append_range e1 16 20;
               p2 = append_range p1 20 32
           in Inr \<lparr>PCoreIndices = p2, ECoreIndices = e2,
                   Description = ''M3 Ultra 32-core: E-cores first within each die''\<rparr>)
        else if Contains name ''M3 Ultra'' \<and> PCoreCount sysInfo = 20 \<and> ECoreCount sysInfo = 8 then
          (let e1 = append_range [] 0 4;
               p1 = append_range [] 4 14;
               e2 = append_range e1 14 18;
               p2 = append_range p1 18 28
           in Inr \<lparr>PCoreIndices = p2, ECoreIndices = e2,
                   Description = ''M3 Ultra 28-core: E-cores first within each die''\<rparr>)
        else if Contains name ''M4 Pro'' then
          (case make_cap (PCoreCount sysInfo) of Inl p \<Rightarrow> Inl p | Inr p0 \<Rightarrow>
           (case make_cap (ECoreCount sysInfo) of Inl p \<Rightarrow> Inl p | Inr e0 \<Rightarrow>
             (let e1 = append_range e0 0 (ECoreCount sysInfo);
                  p1 = append_range p0 (ECoreCount sysInfo) totalCores
              in Inr \<lparr>PCoreIndices = p1, ECoreIndices = e1,
                      Description = ''M4 Pro: E-cores first, then P-cores''\<rparr>)))
        else if Contains name ''M1 Ultra'' \<or> Contains name ''M2 Ultra'' then
          (let pCoresPerDie = PCoreCount sysInfo sdiv 2;
               eCoresPerDie = ECoreCount sysInfo sdiv 2
           in case make_cap (PCoreCount sysInfo) of Inl p \<Rightarrow> Inl p | Inr p0 \<Rightarrow>
              (case make_cap (ECoreCount sysInfo) of Inl p \<Rightarrow> Inl p | Inr e0 \<Rightarrow>
               (let p1 = append_range p0 0 pCoresPerDie;
                    e1 = append_range e0 pCoresPerDie (pCoresPerDie + eCoresPerDie);
                    p2 = append_range p1 (pCoresPerDie + eCoresPerDie)
                           (2 * pCoresPerDie + eCoresPerDie);
                    e2 = append_range e1 (2 * pCoresPerDie + eCoresPerDie) totalCores
                in Inr \<lparr>PCoreIndices = p2, ECoreIndices = e2,
                        Description = ''M1/M2 Ultra: P-cores first within each die''\<rparr>)))
        else
          (case make_cap (PCoreCount sysInfo) of Inl p \<Rightarrow> Inl p | Inr p0 \<Rightarrow>
           (case make_cap (ECoreCount sysInfo) of Inl p \<Rightarrow> Inl p | Inr e0 \<Rightarrow>
             (let p1 = append_range p0 0 (PCoreCount sysInfo);
                  e1 = append_range e0 (PCoreCount sysInfo) totalCores
              in Inr \<lparr>PCoreIndices = p1, ECoreIndices = e1,
                      Description = ''Standard layout: P-cores first, then E-cores''\<rparr>))))"



subsection \<open>The inline topology of the headless exporter loop\<close>



definition inline_loop_indices :: "int \<Rightarrow> int \<Rightarrow> int \<Rightarrow> int list" where
  "inline_loop_indices start cnt n =
     map (\<lambda>i. start + i) (takeWhile (\<lambda>i. start + i < n) [0..cnt - 1])"

definition headless_inline_indices :: "SystemInfo \<Rightarrow> int \<Rightarrow> int list \<times> int list" where
  "headless_inline_indices sysInfo n =
    (let pCoreCount = PCoreCount sysInfo;
         eCoreCount = ECoreCount sysInfo;
         isInterleaved = (IsUltra sysInfo \<and>
            (Contains (Name sysInfo) ''M1'' \<or> Contains (Name sysInfo) ''M2''))
     in if isInterleaved then
          (let pCorePerDie = pCoreCount sdiv 2;
               eCorePerDie = eCoreCount sdiv 2;
               pCoreStart0 = 0 * (pCorePerDie + eCorePerDie);
               eCoreStart0 = pCoreStart0 + pCorePerDie;
               pCoreStart1 = 1 * (pCorePerDie + eCorePerDie);
               eCoreStart1 = pCoreStart1 + pCorePerDie
           in (inline_loop_indices pCoreStart0 pCorePerDie n
                 @ inline_loop_indices pCoreStart1 pCorePerDie n,
               inline_loop_indices eCoreStart0 eCorePerDie n
                 @ inline_loop_indices eCoreStart1 eCorePerDie n))
        else (inline_loop_indices 0 pCoreCount n,
              inline_loop_indices pCoreCount eCoreCount n))"

section \<open>CPU utilization estimator\<close>

text \<open>
  \<^verbatim>\<open>GetCPUUsage\<close> converts the kernel's 32-bit tick counters to \<^verbatim>\<open>float64\<close>; sums and
  differences of such values are exact, so tick values and their deltas are modelled by
  rationals.  The quotient is the one place where \<^verbatim>\<open>float64\<close> can leave the finite
  numbers, so its result is an \<open>f64\<close>: a finite value, an infinity or NaN.  The rounding
  of the quotient is not modelled.
\<close>

record CPUUsage =
  User :: rat
  System :: rat
  Idle :: rat
  Nice :: rat

datatype f64 = Finite rat | PosInf | NegInf | NaN

definition f64_div :: "rat \<Rightarrow> rat \<Rightarrow> f64" where
  "f64_div a b =
     (if b \<noteq> 0 then Finite (a / b)
      else if a = 0 then NaN else if 0 < a then PosInf else NegInf)"

fun f64_times100 :: "f64 \<Rightarrow> f64" where
  "f64_times100 (Finite x) = Finite (x * 100)"
| "f64_times100 PosInf = PosInf"
| "f64_times100 NegInf = NegInf"
| "f64_times100 NaN = NaN"

fun f64_lt :: "f64 \<Rightarrow> rat \<Rightarrow> bool" where
  "f64_lt (Finite x) c = (x < c)"
| "f64_lt PosInf c = False"
| "f64_lt NegInf c = True"
| "f64_lt NaN c = False"

fun f64_gt :: "f64 \<Rightarrow> rat \<Rightarrow> bool" where
  "f64_gt (Finite x) c = (c < x)"
| "f64_gt PosInf c = True"
| "f64_gt NegInf c = False"
| "f64_gt NaN c = False"

definition core_percentage :: "CPUUsage \<Rightarrow> CPUUsage \<Rightarrow> f64" where
  "core_percentage cur lastT =
    (let totalDelta = (User cur - User lastT) + (System cur - System lastT)
                        + (Idle cur - Idle lastT) + (Nice cur - Nice lastT);
         activeDelta = (User cur - User lastT) + (System cur - System lastT)
                        + (Nice cur - Nice lastT);
         p = (if 0 < totalDelta then f64_times100 (f64_div activeDelta totalDelta)
              else Finite 0)
     in if f64_lt p 0 then Finite 0 else if f64_gt p 100 then Finite 100 else p)"

text \<open>
  The loop \<^verbatim>\<open>for i := range currentTimes\<close> reads \<^verbatim>\<open>lastCPUTimes[i]\<close>; the read panics
  when \<open>i\<close> is not below the length of the stored snapshot.
\<close>

fun percentages_loop :: "CPUUsage list \<Rightarrow> CPUUsage list \<Rightarrow> panic + f64 list" where
  "percentages_loop [] lastTimes = Inr []"
| "percentages_loop (c # cs) [] = Inl IndexOutOfRange"
| "percentages_loop (c # cs) (l # ls) =
     (case percentages_loop cs ls of
        Inl p \<Rightarrow> Inl p
      | Inr ps \<Rightarrow> Inr (core_percentage c l # ps))"

record estimator =
  lastCPUTimes :: "CPUUsage list"
  firstRun :: bool


datatype cpu_result = Percentages "f64 list" | QueryError | Panics panic

text \<open>
  The first argument is what \<^verbatim>\<open>GetCPUUsage\<close> returns: \<open>None\<close> when the kernel query
  fails, the per-core snapshot otherwise.
\<close>

definition GetCPUPercentages :: "CPUUsage list option \<Rightarrow> estimator \<Rightarrow> cpu_result \<times> estimator" where
  "GetCPUPercentages query st =
    (case query of
       None \<Rightarrow> (QueryError, st)
     | Some currentTimes \<Rightarrow>
         if firstRun st then
           (Percentages (replicate (length currentTimes) (Finite 0)),
            \<lparr>lastCPUTimes = currentTimes, firstRun = False\<rparr>)
         else
           (case percentages_loop currentTimes (lastCPUTimes st) of
              Inl p \<Rightarrow> (Panics p, st)
            | Inr percentages \<Rightarrow> (Percentages percentages, st\<lparr>lastCPUTimes := currentTimes\<rparr>)))"

section \<open>Decoded samples and metric extractors\<close>

text \<open>
  The plist decoder yields a tree of \<^verbatim>\<open>interface{}\<close> values.  A type assertion
  \<^verbatim>\<open>v.(float64)\<close> succeeds on a real only, \<^verbatim>\<open>v.(string)\<close> on a string only and
  \<^verbatim>\<open>v.(map[string]interface{})\<close> on a dictionary only; on a missing key the lookup
  yields nil and every assertion fails.
\<close>

datatype plist_value =
    PString string
  | PReal rat
  | PInteger int
  | PBool bool
  | PArray "plist_value list"
  | PDict "(string \<times> plist_value) list"







record CPUMetrics =
  EClusterActive :: int
  EClusterFreqMHz :: int
  PClusterActive :: int
  PClusterFreqMHz :: int
  ECores :: "int list"
  PCores :: "int list"
  CoreMetrics :: "(string \<times> int) list"
  CPUW :: rat
  GPUW :: rat
  PackageW :: rat
  CoreUsages :: "rat list"
  Throttled :: bool

record NetDiskMetrics =
  OutPacketsPerSec :: rat
  OutBytesPerSec :: rat
  InPacketsPerSec :: rat
  InBytesPerSec :: rat
  ReadOpsPerSec :: rat
  WriteOpsPerSec :: rat
  ReadKBytesPerSec :: rat
  WriteKBytesPerSec :: rat

record GPUMetrics =
  FreqMHz :: int
  Active :: int

text \<open>The zero values \<^verbatim>\<open>CPUMetrics{}\<close>, \<^verbatim>\<open>GPUMetrics{}\<close> and \<^verbatim>\<open>NetDiskMetrics{}\<close>.\<close>

definition CPUMetrics_zero :: CPUMetrics where
  "CPUMetrics_zero =
     \<lparr>EClusterActive = 0, EClusterFreqMHz = 0, PClusterActive = 0, PClusterFreqMHz = 0,
      ECores = [], PCores = [], CoreMetrics = [], CPUW = 0, GPUW = 0, PackageW = 0,
      CoreUsages = [], Throttled = False\<rparr>"


definition NetDiskMetrics_zero :: NetDiskMetrics where
  "NetDiskMetrics_zero =
     \<lparr>OutPacketsPerSec = 0, OutBytesPerSec = 0, InPacketsPerSec = 0, InBytesPerSec = 0,
      ReadOpsPerSec = 0, WriteOpsPerSec = 0, ReadKBytesPerSec = 0, WriteKBytesPerSec = 0\<rparr>"





text \<open>
  \<^verbatim>\<open>stderrLogger.Fatalf\<close> writes the message and calls \<^verbatim>\<open>os.Exit(1)\<close>: the process
  ends there, and the \<^verbatim>\<open>return\<close> after the first call is never reached.
\<close>

datatype fatal = Fatal string



section \<open>Category mailboxes\<close>

text \<open>
  \<^verbatim>\<open>main\<close> creates each mailbox with \<^verbatim>\<open>make(chan T, 1)\<close>: a buffered channel of
  capacity one, modelled by the list of values it holds, oldest first.  A statement
  either proceeds with a new state, blocks its goroutine, or ends the process.  A plain
  send \<^verbatim>\<open>ch <- v\<close> blocks while the buffer is full; inside
  \<^verbatim>\<open>select { case ch <- v: default: }\<close> the send is tried and, when it cannot proceed,
  the empty \<^verbatim>\<open>default\<close> branch runs instead.
\<close>

datatype 'a outcome = Proceeds 'a | Blocks | Exits fatal

definition then_do :: "'a outcome \<Rightarrow> ('a \<Rightarrow> 'b outcome) \<Rightarrow> 'b outcome" where
  "then_do r f = (case r of Proceeds x \<Rightarrow> f x | Blocks \<Rightarrow> Blocks | Exits e \<Rightarrow> Exits e)"

definition chan_capacity :: nat where
  "chan_capacity = 1"

definition chan_send :: "'a list \<Rightarrow> 'a \<Rightarrow> 'a list outcome" where
  "chan_send ch v = (if length ch < chan_capacity then Proceeds (ch @ [v]) else Blocks)"

definition select_send_default :: "'a list \<Rightarrow> 'a \<Rightarrow> 'a list outcome" where
  "select_send_default ch v =
     (case chan_send ch v of Proceeds ch' \<Rightarrow> Proceeds ch' | Blocks \<Rightarrow> Proceeds ch | Exits e \<Rightarrow> Exits e)"


record channels =
  cpumetricsChan :: "CPUMetrics list"
  gpumetricsChan :: "GPUMetrics list"
  netdiskMetricsChan :: "NetDiskMetrics list"

definition make_channels :: channels where
  "make_channels = \<lparr>cpumetricsChan = [], gpumetricsChan = [], netdiskMetricsChan = []\<rparr>"

section \<open>The collector\<close>






text \<open>The three non-blocking sends at the end of the loop body.\<close>

definition publish :: "channels \<Rightarrow> CPUMetrics \<Rightarrow> GPUMetrics \<Rightarrow> NetDiskMetrics \<Rightarrow> channels outcome" where
  "publish ch cpuMetrics gpuMetrics netdiskMetrics =
     then_do (select_send_default (cpumetricsChan ch) cpuMetrics) (\<lambda>c.
     then_do (select_send_default (gpumetricsChan ch) gpuMetrics) (\<lambda>g.
     then_do (select_send_default (netdiskMetricsChan ch) netdiskMetrics) (\<lambda>n.
       Proceeds \<lparr>cpumetricsChan = c, gpumetricsChan = g, netdiskMetricsChan = n\<rparr>)))"



section \<open>Stream framer\<close>










section \<open>Properties of the core topology resolver\<close>



lemma sdiv_two_nonneg:
  fixes n :: int
  assumes "0 \<le> n"
  shows "n sdiv 2 = n div 2" "0 \<le> n div 2" "2 * (n div 2) \<le> n"
  using assms by (simp_all add: signed_divide_int_def sgn_if)













subsection \<open>Resolver against the inline computation\<close>

lemma map_add_upto: "map (\<lambda>i. s + i) [a..b] = [s + a..s + b]"
proof (induction a b rule: upto.induct)
  case (1 i j)
  show ?case
  proof (cases "i \<le> j")
    case True
    then show ?thesis
      using 1 by (simp add: upto_rec1[of i j] upto_rec1[of "s + i" "s + j"] add.assoc)
  next
    case False
    then show ?thesis by simp
  qed
qed

lemma inline_loop_indices_full:
  assumes "start + cnt \<le> n"
  shows "inline_loop_indices start cnt n = [start..start + cnt - 1]"
proof -
  have tw: "takeWhile (\<lambda>i. start + i < n) [0..cnt - 1] = [0..cnt - 1]"
    unfolding takeWhile_eq_all_conv using assms by auto
  show ?thesis
    unfolding inline_loop_indices_def tw map_add_upto by (simp add: add_diff_eq)
qed

text \<open>
  With even counts, as on the chips that carry these names, the inline loops visit
  exactly the resolver's two lists.
\<close>

lemma ultra_inline_agrees_even:
  assumes "Contains (Name si) ''M1 Ultra'' \<or> Contains (Name si) ''M2 Ultra''"
      and "\<not> Contains (Name si) ''M3 Ultra''" "\<not> Contains (Name si) ''M4 Pro''"
      and "Contains (Name si) ''M1'' \<or> Contains (Name si) ''M2''"
      and "IsUltra si"
      and "0 \<le> PCoreCount si" "0 \<le> ECoreCount si"
      and "even (PCoreCount si)" "even (ECoreCount si)"
  shows "\<exists>t. GetCoreTopology si = Inr t \<and>
     headless_inline_indices si (PCoreCount si + ECoreCount si)
       = (PCoreIndices t, ECoreIndices t)"
proof -
  define P where "P = PCoreCount si"
  define E where "E = ECoreCount si"
  have pe: "0 \<le> P" "0 \<le> E" "2 * (P div 2) = P" "2 * (E div 2) = E"
    using assms by (simp_all add: P_def E_def)
  have b: "P div 2 \<le> P + E" "P div 2 + E div 2 \<le> P + E"
    "P div 2 + E div 2 + P div 2 \<le> P + E"
    "P div 2 + E div 2 + P div 2 + E div 2 \<le> P + E"
    using pe by linarith+
  have c: "2 * (P div 2) + E div 2 = P div 2 + E div 2 + P div 2"
    by simp
  have d: "P div 2 + E div 2 + P div 2 + E div 2 = P + E"
    using pe by linarith
  show ?thesis
    using assms(1-5) pe
    unfolding GetCoreTopology_def headless_inline_indices_def Let_def make_cap_def
      P_def[symmetric] E_def[symmetric]
      sdiv_two_nonneg(1)[OF pe(1)] sdiv_two_nonneg(1)[OF pe(2)] append_range_def c
    by (simp add: inline_loop_indices_full b d add.commute del: upto_rec_numeral)
qed




section \<open>Properties of the category mailboxes\<close>

lemma select_send_default_proceeds:
  "select_send_default ch v = Proceeds (if length ch < 1 then ch @ [v] else ch)"
  by (simp add: select_send_default_def chan_send_def chan_capacity_def)

text \<open>
  Claim C2, as stated, fails.  Two publishes in a row into empty mailboxes leave the first
  values there; the second values are dropped, not stored.
\<close>

theorem publish_overwrite_counterexample:
  "then_do (publish make_channels (CPUMetrics_zero\<lparr>CPUW := 1\<rparr>) \<lparr>FreqMHz = 1, Active = 1\<rparr>
              (NetDiskMetrics_zero\<lparr>InBytesPerSec := 1\<rparr>))
     (\<lambda>ch. publish ch (CPUMetrics_zero\<lparr>CPUW := 2\<rparr>) \<lparr>FreqMHz = 2, Active = 2\<rparr>
              (NetDiskMetrics_zero\<lparr>InBytesPerSec := 2\<rparr>))
   = Proceeds \<lparr>cpumetricsChan = [CPUMetrics_zero\<lparr>CPUW := 1\<rparr>],
               gpumetricsChan = [\<lparr>FreqMHz = 1, Active = 1\<rparr>],
               netdiskMetricsChan = [NetDiskMetrics_zero\<lparr>InBytesPerSec := 1\<rparr>]\<rparr>
   \<and> [\<lparr>FreqMHz = 1, Active = 1\<rparr>] \<noteq> [\<lparr>FreqMHz = 2, Active = 2\<rparr>]"
  by (simp add: publish_def make_channels_def select_send_default_def chan_send_def
        chan_capacity_def then_do_def)

text \<open>
  Claim C2, amended.  A publish never blocks and never ends the process.  A second
  publish without a read in between changes nothing: every mailbox keeps what it held
  after the first publish, and a mailbox that was empty holds exactly the first value.
\<close>

theorem publish_first_value_wins:
  "(\<exists>ch'. publish ch c1 g1 n1 = Proceeds ch')
   \<and> then_do (publish ch c1 g1 n1) (\<lambda>ch'. publish ch' c2 g2 n2) = publish ch c1 g1 n1
   \<and> then_do (publish make_channels c1 g1 n1) (\<lambda>ch'. publish ch' c2 g2 n2)
       = Proceeds \<lparr>cpumetricsChan = [c1], gpumetricsChan = [g1], netdiskMetricsChan = [n1]\<rparr>"
  by (simp add: publish_def select_send_default_proceeds then_do_def make_channels_def)


section \<open>Properties of the CPU utilization estimator\<close>


lemma percentages_loop_ok:
  "length cur \<le> length lastTimes \<Longrightarrow>
   percentages_loop cur lastTimes = Inr (map2 core_percentage cur lastTimes)"
  by (induction cur lastTimes rule: percentages_loop.induct) simp_all

lemma percentages_loop_panics:
  "length lastTimes < length cur \<Longrightarrow> percentages_loop cur lastTimes = Inl IndexOutOfRange"
  by (induction cur lastTimes rule: percentages_loop.induct) simp_all




text \<open>
  Claim C4, as stated, fails.  With one core fewer than the stored snapshot the estimator
  does not return zeros: it computes the percentage against the stored entry.  With one
  core more it reads past the end of the stored snapshot and panics.
\<close>

theorem core_count_change_counterexample:
  "fst (GetCPUPercentages (Some [\<lparr>User = 110, System = 55, Idle = 935, Nice = 0\<rparr>])
      \<lparr>lastCPUTimes = [\<lparr>User = 100, System = 50, Idle = 850, Nice = 0\<rparr>,
                       \<lparr>User = 7, System = 7, Idle = 7, Nice = 7\<rparr>], firstRun = False\<rparr>)
    = Percentages [Finite 15]
   \<and> fst (GetCPUPercentages (Some [\<lparr>User = 110, System = 55, Idle = 935, Nice = 0\<rparr>,
                                  \<lparr>User = 8, System = 8, Idle = 8, Nice = 8\<rparr>])
      \<lparr>lastCPUTimes = [\<lparr>User = 100, System = 50, Idle = 850, Nice = 0\<rparr>], firstRun = False\<rparr>)
    = Panics IndexOutOfRange"
  by (simp add: GetCPUPercentages_def core_percentage_def f64_div_def)

text \<open>
  Claim C4, amended.  On a later call that reports no more cores than the stored snapshot
  holds, the estimator returns one percentage per reported core, computed against the
  stored entries of the same indices (no warm-up), stores the new snapshot, and the next
  call of that length computes its deltas against the new snapshot.
\<close>

theorem fewer_cores_no_warm_up:
  assumes "\<not> firstRun st" and "length cur \<le> length (lastCPUTimes st)"
  shows "GetCPUPercentages (Some cur) st
           = (Percentages (map2 core_percentage cur (lastCPUTimes st)),
              \<lparr>lastCPUTimes = cur, firstRun = False\<rparr>)
         \<and> length (map2 core_percentage cur (lastCPUTimes st)) = length cur
         \<and> (\<forall>next. length next = length cur \<longrightarrow>
               fst (GetCPUPercentages (Some next) (snd (GetCPUPercentages (Some cur) st)))
                 = Percentages (map2 core_percentage next cur))"
  using assms by (simp add: GetCPUPercentages_def percentages_loop_ok)

theorem fewer_cores_no_warm_up_witness:
  "GetCPUPercentages (Some [\<lparr>User = 110, System = 55, Idle = 935, Nice = 0\<rparr>])
      \<lparr>lastCPUTimes = [\<lparr>User = 100, System = 50, Idle = 850, Nice = 0\<rparr>,
                       \<lparr>User = 7, System = 7, Idle = 7, Nice = 7\<rparr>], firstRun = False\<rparr>
    = (Percentages [Finite 15],
       \<lparr>lastCPUTimes = [\<lparr>User = 110, System = 55, Idle = 935, Nice = 0\<rparr>],
        firstRun = False\<rparr>)
   \<and> fst (GetCPUPercentages (Some [\<lparr>User = 120, System = 55, Idle = 935, Nice = 0\<rparr>])
        (snd (GetCPUPercentages (Some [\<lparr>User = 110, System = 55, Idle = 935, Nice = 0\<rparr>])
      \<lparr>lastCPUTimes = [\<lparr>User = 100, System = 50, Idle = 850, Nice = 0\<rparr>,
                       \<lparr>User = 7, System = 7, Idle = 7, Nice = 7\<rparr>], firstRun = False\<rparr>)))
     = Percentages [Finite 100]"
  using fewer_cores_no_warm_up[of
        "\<lparr>lastCPUTimes = [\<lparr>User = 100, System = 50, Idle = 850, Nice = 0\<rparr>,
                          \<lparr>User = 7, System = 7, Idle = 7, Nice = 7\<rparr>], firstRun = False\<rparr>"
        "[\<lparr>User = 110, System = 55, Idle = 935, Nice = 0\<rparr>]"]
  by (simp add: GetCPUPercentages_def core_percentage_def f64_div_def)


section \<open>Properties of the metric extractors\<close>















section \<open>Properties of the stream framer\<close>





























end
